theory Spec2Isabelle
  imports Main
begin

section \<open>JSON values and JavaScript conventions\<close>

text \<open>
  The values that travel through the bridge are JSON values. A JavaScript number is
  modelled by an integer (no claim below computes with fractions). An object is the list
  of its own properties, each key once; a property that is absent reads as
  \<open>undefined\<close>, which is \<open>None\<close> here.
\<close>

datatype json =
    JNull
  | JBool bool
  | JNum int
  | JStr string
  | JArr "json list"
  | JObj "(string \<times> json) list"

text \<open>The message a thrown value is reduced to
  (\<^verbatim>\<open>error instanceof Error ? error.message : String(error)\<close>).\<close>

type_synonym exn = string

text \<open>\<^verbatim>\<open>v.k\<close> for a value that is neither \<open>null\<close> nor \<open>undefined\<close>: only an object has
  the properties read in this program.\<close>

fun field :: "json \<Rightarrow> string \<Rightarrow> json option" where
  "field (JObj kvs) k = map_of kvs k"
| "field _ k = None"

text \<open>JavaScript truthiness, of a value and of a possibly undefined value.\<close>

fun truthy :: "json \<Rightarrow> bool" where
  "truthy JNull = False"
| "truthy (JBool b) = b"
| "truthy (JNum n) = (n \<noteq> 0)"
| "truthy (JStr s) = (s \<noteq> [])"
| "truthy (JArr xs) = True"
| "truthy (JObj kvs) = True"

fun truthy_opt :: "json option \<Rightarrow> bool" where
  "truthy_opt None = False"
| "truthy_opt (Some v) = truthy v"

text \<open>\<^verbatim>\<open>typeof v === "string"\<close>, \<^verbatim>\<open>typeof v === "number"\<close>.\<close>

fun is_string :: "json option \<Rightarrow> bool" where
  "is_string (Some (JStr s)) = True"
| "is_string _ = False"

fun is_number :: "json option \<Rightarrow> bool" where
  "is_number (Some (JNum n)) = True"
| "is_number _ = False"

text \<open>Reading property \<open>k\<close> of the argument value: on \<open>null\<close> the read throws a
  TypeError, on anything else it yields the property or \<open>undefined\<close>.\<close>

definition null_read :: "string \<Rightarrow> exn" where
  "null_read k = ''Cannot read properties of null (reading '' @ [CHR 0x27] @ k @ [CHR 0x27] @ '')''"

definition reading :: "json \<Rightarrow> string \<Rightarrow> (json option \<Rightarrow> exn + 'a) \<Rightarrow> exn + 'a" where
  "reading args k f = (case args of JNull \<Rightarrow> Inl (null_read k) | _ \<Rightarrow> f (field args k))"

section \<open>The host application as the executors see it\<close>

text \<open>
  The editor is an external capability. Its state is given by what each call of its API
  returns during one tool invocation: a getter is a value, and an operation that mutates
  or does input/output is the message it throws (or rejects with), \<open>None\<close> when it
  completes, for the arguments it is called with in this invocation
  (\<open>cmd_dispatch\<close>, which one invocation may call twice, is indexed by the call). The
  text buffer itself is not part of the model.
\<close>

type_synonym point = "int \<times> int"
type_synonym range = "point \<times> point"

record selection =
  sel_getText :: string
  sel_isEmpty :: bool
  sel_getBufferRange :: range
  sel_insertText :: "string \<Rightarrow> exn option"

record editor =
  ed_id :: nat
  ed_getPath :: "string option"
  ed_getText :: string
  ed_getCursorBufferPosition :: point
  ed_getGrammar :: "string option"
  ed_isModified :: bool
  ed_getLastSelection :: "selection option"
  ed_getSelections :: "selection list"
  ed_insertText :: "string \<Rightarrow> exn option"
  ed_save :: "exn option"
  ed_setCursorBufferPosition :: "exn option"
  ed_scrollToCursorPosition :: "exn option"
  ed_setSelectedBufferRanges :: "exn option"

record pane_item =
  it_isModified :: bool
  it_save :: "exn option"

record pane =
  pn_split :: "string \<Rightarrow> exn option"
  pn_destroyItem :: "exn option"
  pn_getItems :: "pane_item list"
  pn_destroy :: "exn option"

record dock =
  dk_isVisible :: bool
  dk_getPaneItems :: nat

record atom_env =
  getActiveTextEditor :: "editor option"
  getTextEditors :: "editor list"
  getPaths :: "string list"
  ws_open :: "json \<Rightarrow> exn option"
  getActivePane :: "pane option"
  paneForItem :: "nat \<Rightarrow> pane option"
  cmd_dispatch :: "nat \<Rightarrow> exn option"
  getLeftDock :: dock
  getRightDock :: dock
  getBottomDock :: dock
  getPanes_length :: nat
  getPanes_activeIndex :: int

section \<open>The executors of the bridge\<close>

definition point_json :: "point \<Rightarrow> json" where
  "point_json p = JObj [(''row'', JNum (fst p)), (''column'', JNum (snd p))]"

definition range_json :: "range \<Rightarrow> json" where
  "range_json r = JObj [(''start'', point_json (fst r)), (''end'', point_json (snd r))]"

text \<open>\<^verbatim>\<open>editor.getPath() || null\<close>\<close>

definition path_or_null :: "string option \<Rightarrow> json" where
  "path_or_null p = (case p of None \<Rightarrow> JNull | Some s \<Rightarrow> if s = [] then JNull else JStr s)"

definition getActiveEditor :: "atom_env \<Rightarrow> json" where
  "getActiveEditor a =
     (case getActiveTextEditor a of
        None \<Rightarrow> JNull
      | Some ed \<Rightarrow>
          JObj [(''path'', path_or_null (ed_getPath ed)),
                (''content'', JStr (ed_getText ed)),
                (''cursorPosition'', point_json (ed_getCursorBufferPosition ed)),
                (''grammar'', JStr (case ed_getGrammar ed of
                                      None \<Rightarrow> ''Plain Text''
                                    | Some g \<Rightarrow> if g = [] then ''Plain Text'' else g)),
                (''modified'', JBool (ed_isModified ed))])"

definition getSelection :: "atom_env \<Rightarrow> json" where
  "getSelection a =
     (case getActiveTextEditor a of
        None \<Rightarrow> JNull
      | Some ed \<Rightarrow>
          (case ed_getLastSelection ed of
             None \<Rightarrow> JNull
           | Some s \<Rightarrow>
               if sel_isEmpty s then JNull
               else JObj [(''text'', JStr (sel_getText s)),
                          (''range'', range_json (sel_getBufferRange s))]))"

definition insertText :: "atom_env \<Rightarrow> string \<Rightarrow> exn + bool" where
  "insertText a text =
     (case getActiveTextEditor a of
        None \<Rightarrow> Inr False
      | Some ed \<Rightarrow> (case ed_insertText ed text of Some e \<Rightarrow> Inl e | None \<Rightarrow> Inr True))"

definition replaceSelection :: "atom_env \<Rightarrow> string \<Rightarrow> exn + bool" where
  "replaceSelection a text =
     (case getActiveTextEditor a of
        None \<Rightarrow> Inr False
      | Some ed \<Rightarrow>
          (case ed_getLastSelection ed of
             None \<Rightarrow> Inr False
           | Some s \<Rightarrow> (case sel_insertText s text of Some e \<Rightarrow> Inl e | None \<Rightarrow> Inr True)))"

text \<open>The whole body of \<open>openFile\<close> is inside \<^verbatim>\<open>try\<close>; a rejected
  \<^verbatim>\<open>atom.workspace.open\<close> is logged and becomes \<open>false\<close>. The options built from
  \<open>line\<close> and \<open>column\<close> go to the host with the path.\<close>

definition openFile :: "atom_env \<Rightarrow> json \<Rightarrow> json option \<Rightarrow> json option \<Rightarrow> bool" where
  "openFile a filePath line column = (ws_open a filePath = None)"

definition goToPosition :: "atom_env \<Rightarrow> json \<Rightarrow> json option \<Rightarrow> bool" where
  "goToPosition a line column =
     (case getActiveTextEditor a of
        None \<Rightarrow> False
      | Some ed \<Rightarrow>
          (case ed_setCursorBufferPosition ed of
             Some e \<Rightarrow> False
           | None \<Rightarrow> ed_scrollToCursorPosition ed = None))"

definition getOpenEditors :: "atom_env \<Rightarrow> json" where
  "getOpenEditors a =
     JArr (map (\<lambda>ed. JObj [(''path'', path_or_null (ed_getPath ed)),
                            (''modified'', JBool (ed_isModified ed)),
                            (''active'', JBool (case getActiveTextEditor a of
                                                  None \<Rightarrow> False
                                                | Some act \<Rightarrow> ed_id ed = ed_id act))])
               (getTextEditors a))"

definition getProjectPaths :: "atom_env \<Rightarrow> json" where
  "getProjectPaths a = JArr (map JStr (getPaths a))"

text \<open>\<^verbatim>\<open>e.getPath() === filePath\<close>\<close>

definition has_path :: "json \<Rightarrow> editor \<Rightarrow> bool" where
  "has_path filePath ed =
     (case filePath of JStr p \<Rightarrow> ed_getPath ed = Some p | _ \<Rightarrow> False)"

definition saveFile :: "atom_env \<Rightarrow> json option \<Rightarrow> bool" where
  "saveFile a filePath =
     (if truthy_opt filePath then
        (case find (has_path (the filePath)) (getTextEditors a) of
           Some ed \<Rightarrow> ed_save ed = None
         | None \<Rightarrow> False)
      else
        (case getActiveTextEditor a of
           None \<Rightarrow> False
         | Some ed \<Rightarrow> ed_save ed = None))"

text \<open>An element \<open>null\<close> makes \<^verbatim>\<open>r.startRow\<close> throw inside the \<^verbatim>\<open>try\<close>.\<close>

definition setSelections :: "atom_env \<Rightarrow> json list \<Rightarrow> bool" where
  "setSelections a ranges =
     (case getActiveTextEditor a of
        None \<Rightarrow> False
      | Some ed \<Rightarrow>
          if JNull \<in> set ranges then False
          else ed_setSelectedBufferRanges ed = None)"

definition getAllSelections :: "atom_env \<Rightarrow> json" where
  "getAllSelections a =
     (case getActiveTextEditor a of
        None \<Rightarrow> JNull
      | Some ed \<Rightarrow>
          JArr (map (\<lambda>s. JObj [(''text'', JStr (sel_getText s)),
                                (''isEmpty'', JBool (sel_isEmpty s)),
                                (''range'', range_json (sel_getBufferRange s))])
                    (ed_getSelections ed)))"

definition revealInTreeView :: "atom_env \<Rightarrow> json \<Rightarrow> bool" where
  "revealInTreeView a filePath =
     (case cmd_dispatch a 0 of
        Some e \<Rightarrow> False
      | None \<Rightarrow>
          if truthy filePath then ws_open a filePath = None \<and> cmd_dispatch a 1 = None
          else True)"

text \<open>\<open>closeFile(filePath, save = false)\<close>: a missing pane makes
  \<^verbatim>\<open>pane.destroyItem\<close> throw inside the \<^verbatim>\<open>try\<close>.\<close>

definition closeFile :: "atom_env \<Rightarrow> json option \<Rightarrow> json option \<Rightarrow> bool" where
  "closeFile a filePath save =
     (case (if truthy_opt filePath then
              map_option (\<lambda>ed. (ed, paneForItem a (ed_id ed)))
                (find (has_path (the filePath)) (getTextEditors a))
            else
              map_option (\<lambda>ed. (ed, getActivePane a)) (getActiveTextEditor a)) of
        None \<Rightarrow> False
      | Some (ed, pane) \<Rightarrow>
          if truthy_opt save \<and> ed_isModified ed \<and> ed_save ed \<noteq> None then False
          else (case pane of None \<Rightarrow> False | Some p \<Rightarrow> pn_destroyItem p = None))"

definition splitPane :: "atom_env \<Rightarrow> json option \<Rightarrow> json option \<Rightarrow> bool" where
  "splitPane a direction filePath =
     (case direction of
        Some (JStr d) \<Rightarrow>
          if d \<in> set [''left'', ''right'', ''up'', ''down''] then
            (case getActivePane a of
               None \<Rightarrow> False
             | Some p \<Rightarrow>
                 (case pn_split p d of
                    Some e \<Rightarrow> False
                  | None \<Rightarrow>
                      if truthy_opt filePath then ws_open a (the filePath) = None else True))
          else False
      | _ \<Rightarrow> False)"

text \<open>\<open>closePane(saveAll = false)\<close>; \<open>it_isModified\<close> stands for
  \<^verbatim>\<open>item.isModified && item.isModified() && item.save\<close>.\<close>

definition closePane :: "atom_env \<Rightarrow> json option \<Rightarrow> bool" where
  "closePane a saveAll =
     (case getActivePane a of
        None \<Rightarrow> False
      | Some p \<Rightarrow>
          if truthy_opt saveAll
             \<and> list_ex (\<lambda>it. it_isModified it \<and> it_save it \<noteq> None) (pn_getItems p)
          then False
          else pn_destroy p = None)"

definition dock_json :: "dock \<Rightarrow> json" where
  "dock_json d = JObj [(''visible'', JBool (dk_isVisible d)),
                       (''items'', JNum (int (dk_getPaneItems d)))]"

definition getPanelState :: "atom_env \<Rightarrow> json" where
  "getPanelState a =
     JObj [(''left'', dock_json (getLeftDock a)),
           (''right'', dock_json (getRightDock a)),
           (''bottom'', dock_json (getBottomDock a)),
           (''panes'', JObj [(''count'', JNum (int (getPanes_length a))),
                             (''activeIndex'', JNum (getPanes_activeIndex a))])]"

section \<open>Tool execution\<close>

text \<open>The envelope: a field the object literal does not mention is \<open>None\<close>.\<close>

record execution_result =
  success :: bool
  data :: "json option"
  error :: "string option"

definition ok :: "json \<Rightarrow> execution_result" where
  "ok d = \<lparr>success = True, data = Some d, error = None\<rparr>"

definition failure :: "string \<Rightarrow> execution_result" where
  "failure m = \<lparr>success = False, data = None, error = Some m\<rparr>"

text \<open>\<^verbatim>\<open>{ success: result, data: { ... } }\<close>\<close>

definition flagged :: "bool \<Rightarrow> (string \<times> json) list \<Rightarrow> execution_result" where
  "flagged result d = \<lparr>success = result, data = Some (JObj d), error = None\<rparr>"

definition lift_flag :: "string \<Rightarrow> exn + bool \<Rightarrow> exn + execution_result" where
  "lift_flag verb r =
     (case r of Inl e \<Rightarrow> Inl e | Inr result \<Rightarrow> Inr (flagged result [(verb, JBool result)]))"

definition exec_InsertText :: "atom_env \<Rightarrow> json \<Rightarrow> exn + execution_result" where
  "exec_InsertText a args =
     reading args ''text'' (\<lambda>text.
       case text of
         Some (JStr s) \<Rightarrow> lift_flag ''inserted'' (insertText a s)
       | _ \<Rightarrow> Inr (failure ''text is required''))"

definition exec_ReplaceSelection :: "atom_env \<Rightarrow> json \<Rightarrow> exn + execution_result" where
  "exec_ReplaceSelection a args =
     reading args ''text'' (\<lambda>text.
       case text of
         Some (JStr s) \<Rightarrow> lift_flag ''replaced'' (replaceSelection a s)
       | _ \<Rightarrow> Inr (failure ''text is required''))"

definition exec_OpenFile :: "atom_env \<Rightarrow> json \<Rightarrow> exn + execution_result" where
  "exec_OpenFile a args =
     reading args ''path'' (\<lambda>path.
       if \<not> is_string path then Inr (failure ''path is required'')
       else lift_flag ''opened''
              (Inr (openFile a (the path) (field args ''line'') (field args ''column''))))"

definition exec_GoToPosition :: "atom_env \<Rightarrow> json \<Rightarrow> exn + execution_result" where
  "exec_GoToPosition a args =
     reading args ''line'' (\<lambda>line.
       if \<not> is_number line then Inr (failure ''line is required'')
       else lift_flag ''navigated'' (Inr (goToPosition a (the line) (field args ''column''))))"

definition exec_SaveFile :: "atom_env \<Rightarrow> json \<Rightarrow> exn + execution_result" where
  "exec_SaveFile a args =
     reading args ''path'' (\<lambda>path. lift_flag ''saved'' (Inr (saveFile a path)))"

definition exec_SetSelections :: "atom_env \<Rightarrow> json \<Rightarrow> exn + execution_result" where
  "exec_SetSelections a args =
     reading args ''ranges'' (\<lambda>ranges.
       case ranges of
         Some (JArr rs) \<Rightarrow>
           if rs = [] then Inr (failure ''ranges array is required'')
           else (let result = setSelections a rs
                 in Inr (flagged result [(''selectionsSet'', JBool result),
                                         (''count'', JNum (int (length rs)))]))
       | _ \<Rightarrow> Inr (failure ''ranges array is required''))"

definition exec_RevealInTreeView :: "atom_env \<Rightarrow> json \<Rightarrow> exn + execution_result" where
  "exec_RevealInTreeView a args =
     reading args ''path'' (\<lambda>path.
       if \<not> is_string path then Inr (failure ''path is required'')
       else lift_flag ''revealed'' (Inr (revealInTreeView a (the path))))"

definition exec_CloseFile :: "atom_env \<Rightarrow> json \<Rightarrow> exn + execution_result" where
  "exec_CloseFile a args =
     reading args ''path'' (\<lambda>path.
       lift_flag ''closed'' (Inr (closeFile a path (field args ''save''))))"

definition exec_SplitPane :: "atom_env \<Rightarrow> json \<Rightarrow> exn + execution_result" where
  "exec_SplitPane a args =
     reading args ''direction'' (\<lambda>direction.
       case direction of
         Some (JStr d) \<Rightarrow>
           if d \<in> set [''left'', ''right'', ''up'', ''down''] then
             (let result = splitPane a direction (field args ''path'')
              in Inr (flagged result [(''split'', JBool result), (''direction'', JStr d)]))
           else Inr (failure ''direction must be one of: left, right, up, down'')
       | _ \<Rightarrow> Inr (failure ''direction must be one of: left, right, up, down''))"

definition exec_ClosePane :: "atom_env \<Rightarrow> json \<Rightarrow> exn + execution_result" where
  "exec_ClosePane a args =
     reading args ''saveAll'' (\<lambda>saveAll. lift_flag ''closed'' (Inr (closePane a saveAll)))"

text \<open>The \<^verbatim>\<open>switch\<close> of \<open>executeTool\<close>, inside its \<^verbatim>\<open>try\<close>: \<open>Inl\<close> is a throw.\<close>

definition executeTool_try :: "atom_env \<Rightarrow> string \<Rightarrow> json \<Rightarrow> exn + execution_result" where
  "executeTool_try a toolName args =
     (if toolName = ''GetActiveEditor'' then Inr (ok (getActiveEditor a))
      else if toolName = ''GetSelection'' then Inr (ok (getSelection a))
      else if toolName = ''InsertText'' then exec_InsertText a args
      else if toolName = ''ReplaceSelection'' then exec_ReplaceSelection a args
      else if toolName = ''OpenFile'' then exec_OpenFile a args
      else if toolName = ''GoToPosition'' then exec_GoToPosition a args
      else if toolName = ''GetOpenEditors'' then Inr (ok (getOpenEditors a))
      else if toolName = ''GetProjectPaths'' then Inr (ok (getProjectPaths a))
      else if toolName = ''SaveFile'' then exec_SaveFile a args
      else if toolName = ''SetSelections'' then exec_SetSelections a args
      else if toolName = ''GetAllSelections'' then Inr (ok (getAllSelections a))
      else if toolName = ''RevealInTreeView'' then exec_RevealInTreeView a args
      else if toolName = ''CloseFile'' then exec_CloseFile a args
      else if toolName = ''SplitPane'' then exec_SplitPane a args
      else if toolName = ''ClosePane'' then exec_ClosePane a args
      else if toolName = ''GetPanelState'' then Inr (ok (getPanelState a))
      else Inr (failure (''Unknown tool: '' @ toolName)))"

text \<open>\<open>executeTool\<close> with its \<^verbatim>\<open>catch\<close>: it always returns an envelope.\<close>

definition executeTool :: "atom_env \<Rightarrow> string \<Rightarrow> json \<Rightarrow> execution_result" where
  "executeTool a toolName args =
     (case executeTool_try a toolName args of
        Inl message \<Rightarrow> failure message
      | Inr result \<Rightarrow> result)"

section \<open>The tool catalog and the registry keys\<close>

text \<open>A catalog entry: its name and, from its input schema, the declared properties with
  their types and the required ones (the descriptive texts are not modelled).\<close>

record tool =
  tool_name :: string
  tool_properties :: "(string \<times> string) list"
  tool_required :: "string list"

definition tools :: "tool list" where
  "tools =
     [\<lparr>tool_name = ''GetActiveEditor'', tool_properties = [], tool_required = []\<rparr>,
      \<lparr>tool_name = ''InsertText'', tool_properties = [(''text'', ''string'')],
        tool_required = [''text'']\<rparr>,
      \<lparr>tool_name = ''OpenFile'',
        tool_properties = [(''path'', ''string''), (''row'', ''number''), (''column'', ''number'')],
        tool_required = [''path'']\<rparr>,
      \<lparr>tool_name = ''GetProjectPaths'', tool_properties = [], tool_required = []\<rparr>,
      \<lparr>tool_name = ''SaveFile'', tool_properties = [(''path'', ''string'')],
        tool_required = []\<rparr>,
      \<lparr>tool_name = ''SetSelections'', tool_properties = [(''ranges'', ''array'')],
        tool_required = [''ranges'']\<rparr>,
      \<lparr>tool_name = ''GetSelections'', tool_properties = [], tool_required = []\<rparr>,
      \<lparr>tool_name = ''CloseFile'',
        tool_properties = [(''path'', ''string''), (''save'', ''boolean'')],
        tool_required = []\<rparr>,
      \<lparr>tool_name = ''FindText'',
        tool_properties = [(''pattern'', ''string''), (''isRegex'', ''boolean''),
                           (''caseSensitive'', ''boolean'')],
        tool_required = [''pattern'']\<rparr>,
      \<lparr>tool_name = ''AddProjectPath'', tool_properties = [(''path'', ''string'')],
        tool_required = [''path'']\<rparr>]"

text \<open>\<^verbatim>\<open>tools.find((t) => t.name === name)\<close>, for a name that may be any value:
  strict equality holds only for a string.\<close>

definition getToolByName :: "json option \<Rightarrow> tool option" where
  "getToolByName name =
     (case name of
        Some (JStr n) \<Rightarrow> find (\<lambda>t. tool_name t = n) tools
      | _ \<Rightarrow> None)"

text \<open>The keys of \<open>toolRegistry\<close>, in the bridge variant that dispatches through a
  registry object; they are the \<^verbatim>\<open>case\<close> labels of \<open>executeTool\<close> above.\<close>

definition toolRegistry_keys :: "string list" where
  "toolRegistry_keys =
     [''GetActiveEditor'', ''GetSelection'', ''InsertText'', ''ReplaceSelection'',
      ''OpenFile'', ''GoToPosition'', ''GetOpenEditors'', ''GetProjectPaths'',
      ''SaveFile'', ''SetSelections'', ''GetAllSelections'', ''RevealInTreeView'',
      ''CloseFile'', ''SplitPane'', ''ClosePane'', ''GetPanelState'']"

section \<open>The HTTP bridge\<close>

text \<open>
  A request body is classified by what the handler does with its text: the empty text,
  a text that \<^verbatim>\<open>JSON.parse\<close> rejects, or a text that parses to a value. The path is the
  \<open>pathname\<close> of the parsed request URL.
\<close>

datatype body_text = EmptyBody | NotJson | JsonText json

record http_request =
  rq_method :: string
  rq_pathname :: string
  rq_body :: body_text

text \<open>What \<open>sendJson\<close> serialises into the response.\<close>

datatype payload =
    NoContent
  | HealthP int
  | ToolsP "tool list"
  | ResultP execution_result
  | ErrorP string

record http_response =
  rs_status :: nat
  rs_headers :: "(string \<times> string) list"
  rs_payload :: payload

definition parseBody :: "body_text \<Rightarrow> exn + json" where
  "parseBody body =
     (case body of
        EmptyBody \<Rightarrow> Inr (JObj [])
      | NotJson \<Rightarrow> Inl ''Invalid JSON body''
      | JsonText v \<Rightarrow> Inr v)"

definition sendJson :: "payload \<Rightarrow> nat \<Rightarrow> http_response" where
  "sendJson d statusCode =
     \<lparr>rs_status = statusCode,
      rs_headers = [(''Content-Type'', ''application/json''),
                    (''Access-Control-Allow-Origin'', ''*'')],
      rs_payload = d\<rparr>"

definition preflight :: http_response where
  "preflight =
     \<lparr>rs_status = 204,
      rs_headers = [(''Access-Control-Allow-Origin'', ''*''),
                    (''Access-Control-Allow-Methods'', ''GET, POST, OPTIONS''),
                    (''Access-Control-Allow-Headers'', ''Content-Type'')],
      rs_payload = NoContent\<rparr>"

definition upper :: "char \<Rightarrow> bool" where
  "upper c = (c \<in> set ''ABCDEFGHIJKLMNOPQRSTUVWXYZ'')"

definition letter :: "char \<Rightarrow> bool" where
  "letter c = (upper c \<or> c \<in> set ''abcdefghijklmnopqrstuvwxyz'')"

text \<open>The capture of \<^verbatim>\<open>/^\/tools\/([A-Z][a-zA-Z]*)$/\<close>.\<close>

definition toolMatch :: "string \<Rightarrow> string option" where
  "toolMatch pathname =
     (if take 7 pathname = ''/tools/'' then
        (case drop 7 pathname of
           [] \<Rightarrow> None
         | c # cs \<Rightarrow> if upper c \<and> list_all letter cs then Some (c # cs) else None)
      else None)"

text \<open>The request handler of \<open>startBridge\<close>; \<open>now\<close> is \<^verbatim>\<open>Date.now()\<close>.\<close>

definition handle :: "atom_env \<Rightarrow> int \<Rightarrow> http_request \<Rightarrow> http_response" where
  "handle a now req =
     (if rq_method req = ''OPTIONS'' then preflight
      else if rq_method req = ''GET'' \<and> rq_pathname req = ''/health''
        then sendJson (HealthP now) 200
      else if rq_method req = ''GET'' \<and> rq_pathname req = ''/tools''
        then sendJson (ToolsP tools) 200
      else
        (case toolMatch (rq_pathname req) of
           Some toolName \<Rightarrow>
             if rq_method req = ''POST'' then
               (case parseBody (rq_body req) of
                  Inl message \<Rightarrow> sendJson (ErrorP message) 500
                | Inr args \<Rightarrow>
                    (let result = executeTool a toolName args
                     in if success result then sendJson (ResultP result) 200
                        else sendJson (ResultP result) 400))
             else sendJson (ErrorP ''Not found'') 404
         | None \<Rightarrow> sendJson (ErrorP ''Not found'') 404))"

section \<open>Starting and stopping the bridge\<close>

text \<open>
  The listening socket is the runtime's. Its documented behaviour is all that is used:
  \<open>listen\<close> on an address that is taken fails with \<open>EADDRINUSE\<close> (an \<open>error\<close> event,
  for which \<open>startBridge\<close> registers no listener), port \<open>0\<close> asks the system for a
  free port, and \<open>close\<close> hands its callback an error when the server is not open.
\<close>

datatype server = Listening string nat | ListenFailed exn | Closed

record network =
  in_use :: "(string \<times> nat) set"
  ephemeral :: nat

definition server_listen :: "network \<Rightarrow> nat \<Rightarrow> string \<Rightarrow> server" where
  "server_listen net port host =
     (let p = (if port = 0 then ephemeral net else port)
      in if (host, p) \<in> in_use net then ListenFailed ''EADDRINUSE'' else Listening host p)"

definition server_close :: "server \<Rightarrow> server \<times> exn option" where
  "server_close s =
     (case s of
        Listening h p \<Rightarrow> (Closed, None)
      | _ \<Rightarrow> (s, Some ''Server is not running.''))"

record config =
  cfg_port :: "nat option"
  cfg_host :: "string option"

record bridge =
  br_port :: nat
  br_host :: string
  br_server :: server

definition DEFAULT_PORT :: nat where
  "DEFAULT_PORT = 3000"

definition DEFAULT_HOST :: string where
  "DEFAULT_HOST = ''127.0.0.1''"

text \<open>\<open>startBridge\<close>: one call of \<open>listen\<close>; the handle it returns carries the
  configured port and host.\<close>

definition startBridge :: "network \<Rightarrow> config \<Rightarrow> bridge" where
  "startBridge net cfg =
     (let port = (case cfg_port cfg of None \<Rightarrow> DEFAULT_PORT | Some p \<Rightarrow> p);
          host = (case cfg_host cfg of None \<Rightarrow> DEFAULT_HOST | Some h \<Rightarrow> h)
      in \<lparr>br_port = port, br_host = host, br_server = server_listen net port host\<rparr>)"

text \<open>The port the server really listens on, if any.\<close>

definition bound_port :: "bridge \<Rightarrow> nat option" where
  "bound_port b = (case br_server b of Listening h p \<Rightarrow> Some p | _ \<Rightarrow> None)"

text \<open>The promise of \<open>stop\<close>: resolved, or rejected with the error of \<open>close\<close>.\<close>

datatype settled = Resolved | Rejected exn

definition stop :: "bridge \<Rightarrow> settled \<times> bridge" where
  "stop b =
     (case server_close (br_server b) of
        (s, Some err) \<Rightarrow> (Rejected err, b\<lparr>br_server := s\<rparr>)
      | (s, None) \<Rightarrow> (Resolved, b\<lparr>br_server := s\<rparr>))"

text \<open>\<open>stopBridge\<close> awaits \<open>stop\<close>; the log line is written only when it resolved.\<close>

definition stopBridge :: "bridge \<Rightarrow> (settled \<times> bridge) \<times> string list" where
  "stopBridge b =
     (case stop b of
        (Resolved, b') \<Rightarrow> ((Resolved, b'), [''[claude-chat] MCP bridge stopped''])
      | (Rejected err, b') \<Rightarrow> ((Rejected err, b'), []))"

section \<open>The stdio server\<close>

subsection \<open>Printing values\<close>

fun show_nat :: "nat \<Rightarrow> string" where
  "show_nat n =
     (if n < 10 then [''0123456789'' ! n]
      else show_nat (n div 10) @ [''0123456789'' ! (n mod 10)])"

declare show_nat.simps [simp del]

definition show_int :: "int \<Rightarrow> string" where
  "show_int i = (if i < 0 then CHR ''-'' # show_nat (nat (- i)) else show_nat (nat i))"

fun join :: "string list \<Rightarrow> string" where
  "join [] = []"
| "join [s] = s"
| "join (s # t # ss) = s @ '','' @ join (t # ss)"

text \<open>\<^verbatim>\<open>String(v)\<close>, and a template hole \<^verbatim>\<open>${v}\<close> for a possibly undefined value.\<close>

fun js_String :: "json \<Rightarrow> string" where
  "js_String JNull = ''null''"
| "js_String (JBool b) = (if b then ''true'' else ''false'')"
| "js_String (JNum n) = show_int n"
| "js_String (JStr s) = s"
| "js_String (JArr xs) = join (map (\<lambda>x. if x = JNull then [] else js_String x) xs)"
| "js_String (JObj kvs) = ''[object Object]''"

definition template :: "json option \<Rightarrow> string" where
  "template v = (case v of None \<Rightarrow> ''undefined'' | Some x \<Rightarrow> js_String x)"

subsection \<open>Thrown values and the network\<close>

text \<open>What the handler can throw: an object literal with \<open>code\<close> and \<open>message\<close>, or an
  \<open>Error\<close> instance (its name and message), which has no \<open>code\<close>.\<close>

datatype thrown = ThrownObject int string | ThrownError string string

text \<open>\<^verbatim>\<open>e.code || -32603\<close> and \<^verbatim>\<open>e.message || String(e)\<close>\<close>

definition code_of :: "thrown \<Rightarrow> int" where
  "code_of e =
     (case e of
        ThrownObject c m \<Rightarrow> if c = 0 then - 32603 else c
      | ThrownError n m \<Rightarrow> - 32603)"

definition message_of :: "thrown \<Rightarrow> string" where
  "message_of e =
     (case e of
        ThrownObject c m \<Rightarrow> if m = [] then ''[object Object]'' else m
      | ThrownError n m \<Rightarrow> if m = [] then n else m)"

record fetch_request =
  fq_method :: string
  fq_host :: string
  fq_port :: nat
  fq_path :: string
  fq_body :: body_text

text \<open>\<open>fetch\<close> is the state of the network when the call is made: it rejects with a
  message or resolves to the bridge's response.\<close>

type_synonym fetch = "fetch_request \<Rightarrow> exn + http_response"

text \<open>\<open>BRIDGE_HOST\<close> and \<open>BRIDGE_PORT\<close>, resolved once from the environment (a port that
  \<open>parseInt\<close> reads as a number).\<close>

record stdio_config =
  BRIDGE_HOST :: string
  BRIDGE_PORT :: nat

definition bridge_url :: "stdio_config \<Rightarrow> string" where
  "bridge_url cfg = ''http://'' @ BRIDGE_HOST cfg @ '':'' @ show_nat (BRIDGE_PORT cfg)"

definition response_ok :: "http_response \<Rightarrow> bool" where
  "response_ok r = (200 \<le> rs_status r \<and> rs_status r \<le> 299)"

text \<open>The fields the client reads off the parsed response body.\<close>

definition payload_success :: "payload \<Rightarrow> bool" where
  "payload_success p = (case p of ResultP r \<Rightarrow> success r | _ \<Rightarrow> False)"

definition payload_error :: "payload \<Rightarrow> string option" where
  "payload_error p = (case p of ResultP r \<Rightarrow> error r | ErrorP m \<Rightarrow> Some m | _ \<Rightarrow> None)"

definition payload_data :: "payload \<Rightarrow> json option" where
  "payload_data p = (case p of ResultP r \<Rightarrow> data r | _ \<Rightarrow> None)"

definition health_probe :: "stdio_config \<Rightarrow> fetch_request" where
  "health_probe cfg =
     \<lparr>fq_method = ''GET'', fq_host = BRIDGE_HOST cfg, fq_port = BRIDGE_PORT cfg,
      fq_path = ''/health'', fq_body = EmptyBody\<rparr>"

definition tool_post :: "stdio_config \<Rightarrow> string \<Rightarrow> json \<Rightarrow> fetch_request" where
  "tool_post cfg toolName args =
     \<lparr>fq_method = ''POST'', fq_host = BRIDGE_HOST cfg, fq_port = BRIDGE_PORT cfg,
      fq_path = ''/tools/'' @ toolName, fq_body = JsonText args\<rparr>"

text \<open>A call of \<open>fetch\<close>, with the record of the request it sends.\<close>

definition fetching :: "fetch \<Rightarrow> fetch_request \<Rightarrow> (exn + http_response) \<times> fetch_request list" where
  "fetching fetch rq = (fetch rq, [rq])"

text \<open>\<open>checkBridge\<close> and \<open>callBridge\<close> return their value together with the requests
  they sent.\<close>

definition checkBridge :: "stdio_config \<Rightarrow> fetch \<Rightarrow> bool \<times> fetch_request list" where
  "checkBridge cfg fetch =
     (case fetching fetch (health_probe cfg) of
        (Inl e, sent) \<Rightarrow> (False, sent)
      | (Inr response, sent) \<Rightarrow> (response_ok response, sent))"

definition callBridge ::
    "stdio_config \<Rightarrow> fetch \<Rightarrow> string \<Rightarrow> json \<Rightarrow> (thrown + json option) \<times> fetch_request list" where
  "callBridge cfg fetch toolName args =
     (case fetching fetch (tool_post cfg toolName args) of
        (Inl e, sent) \<Rightarrow> (Inl (ThrownError ''TypeError'' e), sent)
      | (Inr response, sent) \<Rightarrow>
          (case rs_payload response of
             NoContent \<Rightarrow>
               (Inl (ThrownError ''SyntaxError'' ''Unexpected end of JSON input''), sent)
           | result \<Rightarrow>
               if \<not> response_ok response \<or> \<not> payload_success result then
                 (Inl (ThrownError ''Error''
                         (case payload_error result of
                            None \<Rightarrow> ''Tool call failed: '' @ toolName
                          | Some m \<Rightarrow> if m = [] then ''Tool call failed: '' @ toolName else m)),
                  sent)
               else (Inr (payload_data result), sent)))"

subsection \<open>Requests and responses\<close>

text \<open>A result is kept as a value: \<open>ContentResult d\<close> is the content list with the one
  text item that serialises \<open>d\<close>.\<close>

datatype rpc_result = InitializeResult | ToolsListResult "tool list" | ContentResult "json option"

datatype rpc_message = Response json rpc_result | ErrorResponse json int string

definition unavailable :: "stdio_config \<Rightarrow> string" where
  "unavailable cfg =
     ''Pulsar bridge not available at '' @ bridge_url cfg @ ''. ''
       @ ''Make sure Pulsar is running with the claude-chat package activated.''"

text \<open>The message of the TypeError that
  \<^verbatim>\<open>const { name, arguments: args } = params\<close> throws when \<open>params\<close> is \<open>undefined\<close> or
  \<open>null\<close>.\<close>

definition no_destructure :: "string \<Rightarrow> string" where
  "no_destructure what =
     ''Cannot destructure property '' @ [CHR 0x27] @ ''name'' @ [CHR 0x27] @ '' of ''
       @ [CHR 0x27] @ ''params'' @ [CHR 0x27] @ '' as it is '' @ what @ ''.''"

text \<open>\<open>handleRequest\<close> on a request that is not \<open>null\<close>, with the requests sent by the
  calls it makes, in order.\<close>

definition handleRequest ::
    "stdio_config \<Rightarrow> fetch \<Rightarrow> json \<Rightarrow> (thrown + rpc_result) \<times> fetch_request list" where
  "handleRequest cfg fetch req =
     (let method = field req ''method''; params = field req ''params'' in
      if method = Some (JStr ''initialize'') then (Inr InitializeResult, [])
      else if method = Some (JStr ''tools/list'') then (Inr (ToolsListResult tools), [])
      else if method = Some (JStr ''tools/call'') then
        (case params of
           None \<Rightarrow>
             (Inl (ThrownError ''TypeError'' (no_destructure ''undefined'')), [])
         | Some JNull \<Rightarrow>
             (Inl (ThrownError ''TypeError'' (no_destructure ''null'')), [])
         | Some p \<Rightarrow>
             (let name = field p ''name''; args = field p ''arguments'' in
              case checkBridge cfg fetch of
                (bridgeAvailable, probed) \<Rightarrow>
                  if \<not> bridgeAvailable then
                    (Inl (ThrownObject (- 32603) (unavailable cfg)), probed)
                  else
                    (case getToolByName name of
                       None \<Rightarrow>
                         (Inl (ThrownObject (- 32601) (''Unknown tool: '' @ template name)),
                          probed)
                     | Some t \<Rightarrow>
                         (case callBridge cfg fetch (tool_name t)
                                 (if truthy_opt args then the args else JObj []) of
                            (result, posted) \<Rightarrow>
                              (map_sum id ContentResult result, probed @ posted)))))
      else (Inl (ThrownObject (- 32601) (''Method not found: '' @ template method)), []))"

text \<open>One input line, as \<^verbatim>\<open>JSON.parse\<close> sees it.\<close>

datatype line = Unparsable | Parsed json

text \<open>What handling one line does: the lines written to the output, the calls of
  \<open>fetch\<close>, and the exception that escapes the handler, if one does (reading \<open>id\<close> of
  \<open>null\<close> is outside every \<^verbatim>\<open>try\<close>).\<close>

record line_outcome =
  lo_unhandled :: "exn option"
  lo_written :: "rpc_message list"
  lo_fetches :: "fetch_request list"

definition on_line :: "stdio_config \<Rightarrow> fetch \<Rightarrow> line \<Rightarrow> line_outcome" where
  "on_line cfg fetch l =
     (case l of
        Unparsable \<Rightarrow>
          \<lparr>lo_unhandled = None,
           lo_written = [ErrorResponse JNull (- 32700) ''Parse error''],
           lo_fetches = []\<rparr>
      | Parsed req \<Rightarrow>
          if req = JNull then
            \<lparr>lo_unhandled = Some (null_read ''id''), lo_written = [], lo_fetches = []\<rparr>
          else
            (case field req ''id'' of
               None \<Rightarrow> \<lparr>lo_unhandled = None, lo_written = [], lo_fetches = []\<rparr>
             | Some i \<Rightarrow>
                 (case handleRequest cfg fetch req of
                    (Inr result, fs) \<Rightarrow>
                      \<lparr>lo_unhandled = None, lo_written = [Response i result], lo_fetches = fs\<rparr>
                  | (Inl e, fs) \<Rightarrow>
                      \<lparr>lo_unhandled = None,
                       lo_written = [ErrorResponse i (code_of e) (message_of e)],
                       lo_fetches = fs\<rparr>)))"

subsection \<open>The process\<close>

text \<open>
  The listener of \<open>line\<close> is an \<^verbatim>\<open>async\<close> function whose promise nobody awaits, so the
  handlers of several lines are in flight together. What happens at the arrival of a
  line is the part of its handler before the first \<^verbatim>\<open>await\<close>: a line that does not parse
  is answered there and then; a message without \<open>id\<close> returns; reading \<open>id\<close> of \<open>null\<close>
  rejects the handler's promise, which nothing handles; a request is suspended at
  \<^verbatim>\<open>await handleRequest(req)\<close> and writes its one message when it completes, at any later
  time and in any order with the others. The runtime ends the process at some time
  after a rejection was left unhandled (its default); from then on nothing is written.

  A run is a schedule of events: a line arriving, with the network as its handler finds
  it; the completion of the \<open>k\<close>-th suspended handler; the exit.
\<close>

datatype event = Line fetch line | Done nat | Exit

record process =
  pr_pending :: "rpc_message list"
  pr_rejected :: "exn list"
  pr_exited :: bool

definition start :: process where
  "start = \<lparr>pr_pending = [], pr_rejected = [], pr_exited = False\<rparr>"

text \<open>One event: the new state and what is written to the output at that moment.\<close>

definition step :: "stdio_config \<Rightarrow> process \<Rightarrow> event \<Rightarrow> process \<times> rpc_message list" where
  "step cfg s ev =
     (if pr_exited s then (s, [])
      else
        (case ev of
           Line fetch l \<Rightarrow>
             (let out = on_line cfg fetch l in
              case lo_unhandled out of
                Some e \<Rightarrow> (s\<lparr>pr_rejected := pr_rejected s @ [e]\<rparr>, [])
              | None \<Rightarrow>
                  (case l of
                     Unparsable \<Rightarrow> (s, lo_written out)
                   | Parsed req \<Rightarrow> (s\<lparr>pr_pending := pr_pending s @ lo_written out\<rparr>, [])))
         | Done k \<Rightarrow>
             if k < length (pr_pending s) then
               (s\<lparr>pr_pending := take k (pr_pending s) @ drop (Suc k) (pr_pending s)\<rparr>,
                [pr_pending s ! k])
             else (s, [])
         | Exit \<Rightarrow>
             if pr_rejected s = [] then (s, []) else (s\<lparr>pr_exited := True\<rparr>, [])))"

text \<open>A schedule: the final state and the output, in the order it is written.\<close>

fun run :: "stdio_config \<Rightarrow> process \<Rightarrow> event list \<Rightarrow> process \<times> rpc_message list" where
  "run cfg s [] = (s, [])"
| "run cfg s (ev # evs) =
     (fst (run cfg (fst (step cfg s ev)) evs),
      snd (step cfg s ev) @ snd (run cfg (fst (step cfg s ev)) evs))"

text \<open>The network when the bridge \<open>b\<close> of this window is the only server: a request to
  the address it listens on reaches its handler, any other connection is refused.\<close>

definition loopback :: "atom_env \<Rightarrow> int \<Rightarrow> bridge \<Rightarrow> fetch" where
  "loopback a now b rq =
     (if br_server b = Listening (fq_host rq) (fq_port rq) then
        Inr (handle a now
               \<lparr>rq_method = fq_method rq, rq_pathname = fq_path rq, rq_body = fq_body rq\<rparr>)
      else Inl ''fetch failed'')"

section \<open>Requests and states used as inputs\<close>

definition post :: "string \<Rightarrow> body_text \<Rightarrow> http_request" where
  "post pathname body = \<lparr>rq_method = ''POST'', rq_pathname = pathname, rq_body = body\<rparr>"

text \<open>The request line
  \<^verbatim>\<open>{"jsonrpc":"2.0","id":i,"method":"tools/call","params":{"name":name,"arguments":args}}\<close>.\<close>

definition call_request :: "json \<Rightarrow> string \<Rightarrow> json \<Rightarrow> json" where
  "call_request i name args =
     JObj [(''jsonrpc'', JStr ''2.0''), (''id'', i), (''method'', JStr ''tools/call''),
           (''params'', JObj [(''name'', JStr name), (''arguments'', args)])]"

definition list_request :: "json \<Rightarrow> json" where
  "list_request i =
     JObj [(''jsonrpc'', JStr ''2.0''), (''id'', i), (''method'', JStr ''tools/list'')]"

text \<open>A \<open>tools/call\<close> message without \<open>id\<close>.\<close>

definition notification :: json where
  "notification =
     JObj [(''jsonrpc'', JStr ''2.0''), (''method'', JStr ''tools/call''),
           (''params'', JObj [(''name'', JStr ''InsertText''),
                              (''arguments'', JObj [(''text'', JStr ''hi'')])])]"


text \<open>A window with no editor open and no active pane.\<close>

definition closed_dock :: dock where
  "closed_dock = \<lparr>dk_isVisible = False, dk_getPaneItems = 0\<rparr>"

definition idle_atom :: atom_env where
  "idle_atom =
     \<lparr>getActiveTextEditor = None, getTextEditors = [], getPaths = [],
      ws_open = (\<lambda>p. None), getActivePane = None, paneForItem = (\<lambda>i. None),
      cmd_dispatch = (\<lambda>n. None), getLeftDock = closed_dock, getRightDock = closed_dock,
      getBottomDock = closed_dock, getPanes_length = 1, getPanes_activeIndex = 0\<rparr>"

text \<open>A machine where another instance listens on 127.0.0.1:3000, and one where no port
  is taken.\<close>

definition taken_3000 :: network where
  "taken_3000 = \<lparr>in_use = {(''127.0.0.1'', 3000)}, ephemeral = 49152\<rparr>"

definition free_network :: network where
  "free_network = \<lparr>in_use = {}, ephemeral = 49152\<rparr>"

definition default_config :: config where
  "default_config = \<lparr>cfg_port = None, cfg_host = None\<rparr>"

definition bridge_3000 :: bridge where
  "bridge_3000 = startBridge free_network default_config"

definition default_stdio :: stdio_config where
  "default_stdio = \<lparr>BRIDGE_HOST = ''127.0.0.1'', BRIDGE_PORT = 3000\<rparr>"

text \<open>The network when nothing listens: every connection is refused.\<close>

definition refused :: fetch where
  "refused rq = Inl ''fetch failed''"

text \<open>The two shapes of a failed envelope that does not come from a caught exception:
  a non-empty message and no data, or no message and the executor's \<open>false\<close> as the
  first field of the data.\<close>

definition shaped :: "execution_result \<Rightarrow> bool" where
  "shaped r \<longleftrightarrow>
     (\<exists>m. m \<noteq> [] \<and> r = failure m)
     \<or> (\<exists>k rest. r = flagged False ((k, JBool False) # rest))"

section \<open>The envelope of a failed execution\<close>

lemma reading_Inr: "reading args k f = Inr r \<Longrightarrow> f (field args k) = Inr r"
  by (auto simp: reading_def split: json.splits)

lemma reading_obj: "args \<noteq> JNull \<Longrightarrow> reading args k f = f (field args k)"
  by (cases args) (simp_all add: reading_def)

lemma lift_flag_shape:
  "lift_flag verb x = Inr r \<Longrightarrow> \<not> success r \<Longrightarrow> r = flagged False [(verb, JBool False)]"
  by (auto simp: lift_flag_def flagged_def split: sum.splits)

lemma shaped_failure: "m \<noteq> [] \<Longrightarrow> shaped (failure m)"
  by (auto simp: shaped_def)

lemma shaped_lift: "lift_flag verb x = Inr r \<Longrightarrow> \<not> success r \<Longrightarrow> shaped r"
  by (auto simp: shaped_def dest: lift_flag_shape)

lemma success_ok: "success (ok d)"
  by (simp add: ok_def)

lemma shaped_InsertText: "exec_InsertText a args = Inr r \<Longrightarrow> \<not> success r \<Longrightarrow> shaped r"
  unfolding exec_InsertText_def
  by (drule reading_Inr) (auto split: option.splits json.splits intro: shaped_failure shaped_lift)

lemma shaped_ReplaceSelection:
  "exec_ReplaceSelection a args = Inr r \<Longrightarrow> \<not> success r \<Longrightarrow> shaped r"
  unfolding exec_ReplaceSelection_def
  by (drule reading_Inr) (auto split: option.splits json.splits intro: shaped_failure shaped_lift)

lemma shaped_OpenFile: "exec_OpenFile a args = Inr r \<Longrightarrow> \<not> success r \<Longrightarrow> shaped r"
  unfolding exec_OpenFile_def
  by (drule reading_Inr) (auto split: if_splits intro: shaped_failure shaped_lift)

lemma shaped_GoToPosition: "exec_GoToPosition a args = Inr r \<Longrightarrow> \<not> success r \<Longrightarrow> shaped r"
  unfolding exec_GoToPosition_def
  by (drule reading_Inr) (auto split: if_splits intro: shaped_failure shaped_lift)

lemma shaped_SaveFile: "exec_SaveFile a args = Inr r \<Longrightarrow> \<not> success r \<Longrightarrow> shaped r"
  unfolding exec_SaveFile_def
  by (drule reading_Inr) (auto intro: shaped_lift)

lemma shaped_SetSelections:
  "exec_SetSelections a args = Inr r \<Longrightarrow> \<not> success r \<Longrightarrow> shaped r"
  unfolding exec_SetSelections_def
  by (drule reading_Inr)
     (auto simp: Let_def flagged_def shaped_def split: option.splits json.splits if_splits)

lemma shaped_RevealInTreeView:
  "exec_RevealInTreeView a args = Inr r \<Longrightarrow> \<not> success r \<Longrightarrow> shaped r"
  unfolding exec_RevealInTreeView_def
  by (drule reading_Inr) (auto split: if_splits intro: shaped_failure shaped_lift)

lemma shaped_CloseFile: "exec_CloseFile a args = Inr r \<Longrightarrow> \<not> success r \<Longrightarrow> shaped r"
  unfolding exec_CloseFile_def
  by (drule reading_Inr) (auto intro: shaped_lift)

lemma shaped_SplitPane: "exec_SplitPane a args = Inr r \<Longrightarrow> \<not> success r \<Longrightarrow> shaped r"
  unfolding exec_SplitPane_def
  by (drule reading_Inr)
     (auto simp: Let_def flagged_def shaped_def split: option.splits json.splits if_splits)

lemma shaped_ClosePane: "exec_ClosePane a args = Inr r \<Longrightarrow> \<not> success r \<Longrightarrow> shaped r"
  unfolding exec_ClosePane_def
  by (drule reading_Inr) (auto intro: shaped_lift)

lemmas shaped_cases =
  shaped_InsertText shaped_ReplaceSelection shaped_OpenFile shaped_GoToPosition
  shaped_SaveFile shaped_SetSelections shaped_RevealInTreeView shaped_CloseFile
  shaped_SplitPane shaped_ClosePane

lemma executeTool_try_shaped:
  "executeTool_try a toolName args = Inr r \<Longrightarrow> \<not> success r \<Longrightarrow> shaped r"
  unfolding executeTool_try_def
  by (auto split: if_splits simp: success_ok intro: shaped_failure dest: shaped_cases)

text \<open>
  C1, as the code has it. When \<open>executeTool\<close> returns \<open>success: false\<close>, the envelope is
  one of three: the message of an exception caught from the host, with no data (the
  message is whatever was thrown); a non-empty message with no data (a validation
  failure or an unknown tool); or no \<open>error\<close> field at all and a data object whose first
  field is the executor's \<open>false\<close>.
\<close>

theorem executeTool_failure_shape:
  assumes "\<not> success (executeTool a toolName args)"
  shows "(\<exists>m. executeTool_try a toolName args = Inl m \<and> executeTool a toolName args = failure m)
       \<or> (\<exists>m. m \<noteq> [] \<and> executeTool a toolName args = failure m)
       \<or> (\<exists>k rest. executeTool a toolName args = flagged False ((k, JBool False) # rest))"
proof (cases "executeTool_try a toolName args")
  case (Inl m)
  then show ?thesis by (simp add: executeTool_def)
next
  case (Inr r)
  then have eq: "executeTool a toolName args = r" by (simp add: executeTool_def)
  with assms have "\<not> success r" by simp
  with Inr have "shaped r" by (rule executeTool_try_shaped)
  with eq show ?thesis by (auto simp: shaped_def)
qed

text \<open>C1, witness: \<open>SaveFile\<close> with no arguments while no editor is open.\<close>

theorem executeTool_failure_shape_witness:
  "\<not> success (executeTool idle_atom ''SaveFile'' (JObj []))
   \<and> ((\<exists>m. executeTool_try idle_atom ''SaveFile'' (JObj []) = Inl m
            \<and> executeTool idle_atom ''SaveFile'' (JObj []) = failure m)
        \<or> (\<exists>m. m \<noteq> [] \<and> executeTool idle_atom ''SaveFile'' (JObj []) = failure m)
        \<or> (\<exists>k rest. executeTool idle_atom ''SaveFile'' (JObj [])
                        = flagged False ((k, JBool False) # rest)))"
proof -
  have h: "\<not> success (executeTool idle_atom ''SaveFile'' (JObj []))"
    by (simp add: executeTool_def executeTool_try_def exec_SaveFile_def reading_def
        lift_flag_def flagged_def saveFile_def idle_atom_def)
  show ?thesis
    using h executeTool_failure_shape [OF h] by (rule conjI)
qed

text \<open>C1, counterexample: \<open>SaveFile\<close> with no arguments while no editor is open fails
  and carries no error message.\<close>

theorem SaveFile_failure_without_error:
  "success (executeTool idle_atom ''SaveFile'' (JObj [])) = False
   \<and> error (executeTool idle_atom ''SaveFile'' (JObj [])) = None
   \<and> data (executeTool idle_atom ''SaveFile'' (JObj [])) = Some (JObj [(''saved'', JBool False)])"
  by (simp add: executeTool_def executeTool_try_def exec_SaveFile_def reading_def
      lift_flag_def flagged_def saveFile_def idle_atom_def)

section \<open>Binding the port\<close>

text \<open>
  C2, at the input where it fails. With 127.0.0.1:3000 taken by another instance,
  \<open>startBridge\<close> with the default configuration calls \<open>listen\<close> once, on 3000; nothing
  is bound afterwards, and the handle reports port 3000.
\<close>

theorem startBridge_taken_port:
  "br_port (startBridge taken_3000 default_config) = 3000
   \<and> br_server (startBridge taken_3000 default_config) = ListenFailed ''EADDRINUSE''
   \<and> bound_port (startBridge taken_3000 default_config) = None"
  by (simp add: startBridge_def taken_3000_def default_config_def DEFAULT_PORT_def
      DEFAULT_HOST_def server_listen_def bound_port_def Let_def)

section \<open>An executor that returns false\<close>

text \<open>
  C3, as the code has it. With no editor open, each tool whose executor answers \<open>false\<close>
  for "no active document" yields \<open>success: false\<close>, no \<open>error\<close> field, and the \<open>false\<close>
  in its data: \<open>InsertText\<close> and \<open>ReplaceSelection\<close> with a string \<open>text\<close>, \<open>GoToPosition\<close>
  with a number \<open>line\<close>, \<open>SetSelections\<close> with a non-empty \<open>ranges\<close> array, \<open>SaveFile\<close> and
  \<open>CloseFile\<close> without a \<open>path\<close>.
\<close>

theorem no_editor_flag:
  assumes "getActiveTextEditor a = None" and "args \<noteq> JNull"
  shows "(field args ''text'' = Some (JStr s) \<longrightarrow>
            executeTool a ''InsertText'' args = flagged False [(''inserted'', JBool False)]
          \<and> executeTool a ''ReplaceSelection'' args = flagged False [(''replaced'', JBool False)])
       \<and> (field args ''line'' = Some (JNum n) \<longrightarrow>
            executeTool a ''GoToPosition'' args = flagged False [(''navigated'', JBool False)])
       \<and> (field args ''ranges'' = Some (JArr (r # rs)) \<longrightarrow>
            executeTool a ''SetSelections'' args =
              flagged False [(''selectionsSet'', JBool False),
                             (''count'', JNum (1 + int (length rs)))])
       \<and> (\<not> truthy_opt (field args ''path'') \<longrightarrow>
            executeTool a ''SaveFile'' args = flagged False [(''saved'', JBool False)]
          \<and> executeTool a ''CloseFile'' args = flagged False [(''closed'', JBool False)])"
  using assms
  by (simp add: executeTool_def executeTool_try_def exec_InsertText_def exec_ReplaceSelection_def
      exec_GoToPosition_def exec_SetSelections_def exec_SaveFile_def exec_CloseFile_def
      reading_obj lift_flag_def insertText_def replaceSelection_def goToPosition_def
      setSelections_def saveFile_def closeFile_def Let_def)

text \<open>C3, witness: one argument object that fits all six tools, in the window with no
  editor.\<close>

theorem no_editor_flag_witness:
  "getActiveTextEditor idle_atom = None
   \<and> executeTool idle_atom ''InsertText''
        (JObj [(''text'', JStr ''hi''), (''line'', JNum 1), (''ranges'', JArr [JObj []])])
       = \<lparr>success = False, data = Some (JObj [(''inserted'', JBool False)]), error = None\<rparr>
   \<and> executeTool idle_atom ''SetSelections''
        (JObj [(''text'', JStr ''hi''), (''line'', JNum 1), (''ranges'', JArr [JObj []])])
       = \<lparr>success = False,
          data = Some (JObj [(''selectionsSet'', JBool False), (''count'', JNum 1)]),
          error = None\<rparr>
   \<and> executeTool idle_atom ''CloseFile''
        (JObj [(''text'', JStr ''hi''), (''line'', JNum 1), (''ranges'', JArr [JObj []])])
       = \<lparr>success = False, data = Some (JObj [(''closed'', JBool False)]), error = None\<rparr>"
proof -
  let ?args = "JObj [(''text'', JStr ''hi''), (''line'', JNum 1), (''ranges'', JArr [JObj []])]"
  have h: "getActiveTextEditor idle_atom = None" by (simp add: idle_atom_def)
  have n: "?args \<noteq> JNull" by simp
  show ?thesis
    using h no_editor_flag [OF h n, of "''hi''" 1 "JObj []" "[]"] by (simp add: flagged_def)
qed

text \<open>C3, counterexample: \<open>InsertText\<close> with the text "hi" while no editor is open does
  not report success.\<close>

theorem InsertText_no_editor_not_success:
  "success (executeTool idle_atom ''InsertText'' (JObj [(''text'', JStr ''hi'')])) = False"
  by (simp add: executeTool_def executeTool_try_def exec_InsertText_def reading_def
      lift_flag_def flagged_def insertText_def idle_atom_def)

section \<open>Names the bridge does not execute\<close>

lemma executeTool_try_unknown:
  "name \<notin> set toolRegistry_keys \<Longrightarrow>
   executeTool_try a name args = Inr (failure (''Unknown tool: '' @ name))"
  by (auto simp: toolRegistry_keys_def executeTool_try_def)

lemma executeTool_unknown:
  "name \<notin> set toolRegistry_keys \<Longrightarrow>
   executeTool a name args = failure (''Unknown tool: '' @ name)"
  by (simp add: executeTool_def executeTool_try_unknown)

lemma handle_post_unknown:
  assumes "name \<notin> set toolRegistry_keys" and "toolMatch pathname = Some name"
    and "body \<noteq> NotJson"
  shows "handle a now (post pathname body)
         = sendJson (ResultP (failure (''Unknown tool: '' @ name))) 400"
  using assms
  by (cases body) (auto simp: handle_def post_def parseBody_def executeTool_unknown failure_def)


lemma loopback_health:
  "br_server b = Listening (BRIDGE_HOST cfg) (BRIDGE_PORT cfg) \<Longrightarrow>
   checkBridge cfg (loopback a now b) = (True, [health_probe cfg])"
  by (simp add: checkBridge_def fetching_def loopback_def health_probe_def handle_def
      sendJson_def response_ok_def)




lemma getToolByName_absent:
  "name \<notin> set (map tool_name tools) \<Longrightarrow> getToolByName (Some (JStr name)) = None"
  by (auto simp: getToolByName_def find_None_iff)

lemma handleRequest_call:
  "handleRequest cfg fetch (call_request i name args) =
     (if \<not> fst (checkBridge cfg fetch) then
        (Inl (ThrownObject (- 32603) (unavailable cfg)), snd (checkBridge cfg fetch))
      else
        (case getToolByName (Some (JStr name)) of
           None \<Rightarrow>
             (Inl (ThrownObject (- 32601) (''Unknown tool: '' @ name)),
              snd (checkBridge cfg fetch))
         | Some t \<Rightarrow>
             (map_sum id ContentResult
                (fst (callBridge cfg fetch (tool_name t) (if truthy args then args else JObj []))),
              snd (checkBridge cfg fetch)
                @ snd (callBridge cfg fetch (tool_name t)
                         (if truthy args then args else JObj [])))))"
  by (simp add: handleRequest_def call_request_def template_def Let_def
      split: option.splits prod.splits)

lemma checkBridge_sent: "snd (checkBridge cfg fetch) = [health_probe cfg]"
  by (simp add: checkBridge_def fetching_def split: sum.splits)

lemma on_line_call:
  "on_line cfg fetch (Parsed (call_request i name args)) =
     (case handleRequest cfg fetch (call_request i name args) of
        (Inr result, fs) \<Rightarrow>
          \<lparr>lo_unhandled = None, lo_written = [Response i result], lo_fetches = fs\<rparr>
      | (Inl e, fs) \<Rightarrow>
          \<lparr>lo_unhandled = None, lo_written = [ErrorResponse i (code_of e) (message_of e)],
           lo_fetches = fs\<rparr>)"
proof -
  have "field (call_request i name args) ''id'' = Some i"
    and "call_request i name args \<noteq> JNull"
    by (simp_all add: call_request_def)
  then show ?thesis by (simp add: on_line_def)
qed

lemma on_line_list:
  "on_line cfg fetch (Parsed (list_request i))
   = \<lparr>lo_unhandled = None, lo_written = [Response i (ToolsListResult tools)], lo_fetches = []\<rparr>"
  by (simp add: on_line_def list_request_def handleRequest_def)

lemma on_line_unknown_local:
  assumes "name \<notin> set (map tool_name tools)" and "fst (checkBridge cfg fetch)"
  shows "on_line cfg fetch (Parsed (call_request i name args))
         = \<lparr>lo_unhandled = None,
            lo_written = [ErrorResponse i (- 32601) (''Unknown tool: '' @ name)],
            lo_fetches = [health_probe cfg]\<rparr>"
  using assms
  by (simp add: on_line_call handleRequest_call getToolByName_absent checkBridge_sent
      code_of_def message_of_def)

lemma bridge_3000_listening:
  "br_server bridge_3000 = Listening (BRIDGE_HOST default_stdio) (BRIDGE_PORT default_stdio)"
  by (simp add: bridge_3000_def startBridge_def free_network_def default_config_def
      default_stdio_def DEFAULT_PORT_def DEFAULT_HOST_def server_listen_def Let_def)



section \<open>The body of a tool request\<close>

text \<open>
  C5, as the code has it. For a \<open>POST\<close> on a tool route, an empty body is handled exactly
  as the body \<open>{}\<close>: the tool runs with the empty argument object and the answer is 200 or
  400 by its \<open>success\<close>. A body that is not valid JSON is answered by the handler's
  catch-all: status 500 with the error "Invalid JSON body".
\<close>

theorem post_body_handling:
  assumes "toolMatch pathname = Some name"
  shows "handle a now (post pathname EmptyBody) = handle a now (post pathname (JsonText (JObj [])))
       \<and> handle a now (post pathname EmptyBody)
           = sendJson (ResultP (executeTool a name (JObj [])))
               (if success (executeTool a name (JObj [])) then 200 else 400)
       \<and> handle a now (post pathname NotJson) = sendJson (ErrorP ''Invalid JSON body'') 500"
  using assms by (auto simp: handle_def post_def parseBody_def Let_def)

text \<open>C5, witness: \<open>POST /tools/InsertText\<close> with an empty body and with a malformed one.\<close>

theorem post_body_handling_witness:
  "toolMatch ''/tools/InsertText'' = Some ''InsertText''
   \<and> handle idle_atom 0 (post ''/tools/InsertText'' EmptyBody)
       = sendJson (ResultP (failure ''text is required'')) 400
   \<and> handle idle_atom 0 (post ''/tools/InsertText'' NotJson)
       = sendJson (ErrorP ''Invalid JSON body'') 500"
proof -
  have h: "toolMatch ''/tools/InsertText'' = Some ''InsertText''"
    by (simp add: toolMatch_def upper_def letter_def)
  have e: "executeTool idle_atom ''InsertText'' (JObj []) = failure ''text is required''"
    by (simp add: executeTool_def executeTool_try_def exec_InsertText_def reading_def)
  note r = post_body_handling [OF h, of idle_atom 0]
  have "handle idle_atom 0 (post ''/tools/InsertText'' EmptyBody)
        = sendJson (ResultP (failure ''text is required'')) 400"
    using conjunct1 [OF conjunct2 [OF r]] by (simp add: e failure_def)
  with h conjunct2 [OF conjunct2 [OF r]] show ?thesis by blast
qed

text \<open>C5, counterexample: \<open>POST /tools/InsertText\<close> with a body that is not valid JSON
  is answered with status 500.\<close>

theorem malformed_body_status_500:
  "rs_status (handle idle_atom 0 (post ''/tools/InsertText'' NotJson)) = 500"
  by (simp add: handle_def post_def toolMatch_def upper_def letter_def parseBody_def sendJson_def)

section \<open>Unknown tool names\<close>

text \<open>
  C6, as the code has it. For a name that is not a case of \<open>executeTool\<close> and any
  arguments, \<open>executeTool\<close> returns the unknown-tool envelope from its default branch,
  without a throw; \<open>POST\<close> on the route that captures that name, with a body that is empty
  or valid JSON, answers 400 with this envelope; and the stdio server, once its health
  probe succeeded, answers a \<open>tools/call\<close> for a name absent from the catalog with error
  -32601 without sending anything else to the bridge.
\<close>

theorem unknown_tool_envelopes:
  assumes "name \<notin> set toolRegistry_keys"
  shows "executeTool_try a name args = Inr (failure (''Unknown tool: '' @ name))
       \<and> executeTool a name args = failure (''Unknown tool: '' @ name)
       \<and> (toolMatch pathname = Some name \<and> body \<noteq> NotJson \<longrightarrow>
            handle a now (post pathname body)
            = sendJson (ResultP (failure (''Unknown tool: '' @ name))) 400)
       \<and> (name \<notin> set (map tool_name tools) \<and> fst (checkBridge cfg fetch) \<longrightarrow>
            on_line cfg fetch (Parsed (call_request i name args))
            = \<lparr>lo_unhandled = None,
               lo_written = [ErrorResponse i (- 32601) (''Unknown tool: '' @ name)],
               lo_fetches = [health_probe cfg]\<rparr>)"
  using assms executeTool_try_unknown [OF assms] executeTool_unknown [OF assms]
    handle_post_unknown [OF assms] on_line_unknown_local
  by blast

text \<open>C6, witness: the name \<open>Frobnicate\<close>, unknown to the bridge and to the catalog.\<close>

theorem unknown_tool_envelopes_witness:
  "''Frobnicate'' \<notin> set toolRegistry_keys
   \<and> executeTool idle_atom ''Frobnicate'' (JObj []) = failure ''Unknown tool: Frobnicate''
   \<and> handle idle_atom 0 (post ''/tools/Frobnicate'' EmptyBody)
       = sendJson (ResultP (failure ''Unknown tool: Frobnicate'')) 400
   \<and> on_line default_stdio (loopback idle_atom 0 bridge_3000)
        (Parsed (call_request (JNum 1) ''Frobnicate'' (JObj [])))
       = \<lparr>lo_unhandled = None,
          lo_written = [ErrorResponse (JNum 1) (- 32601) ''Unknown tool: Frobnicate''],
          lo_fetches = [health_probe default_stdio]\<rparr>"
proof -
  have h: "''Frobnicate'' \<notin> set toolRegistry_keys"
    by (simp add: toolRegistry_keys_def)
  have m: "toolMatch ''/tools/Frobnicate'' = Some ''Frobnicate''"
    by (simp add: toolMatch_def upper_def letter_def)
  have c: "''Frobnicate'' \<notin> set (map tool_name tools)"
    by (simp add: tools_def)
  have l: "fst (checkBridge default_stdio (loopback idle_atom 0 bridge_3000))"
    by (simp add: loopback_health [OF bridge_3000_listening])
  show ?thesis
    using h m c l
      unknown_tool_envelopes [OF h, of idle_atom "JObj []" "''/tools/Frobnicate''" EmptyBody 0
        default_stdio "loopback idle_atom 0 bridge_3000" "JNum 1"]
    by simp
qed

text \<open>C6, counterexample: \<open>FindText\<close> is not a case of \<open>executeTool\<close>, yet a \<open>tools/call\<close>
  for it is not rejected by the stdio server: after the probe it is posted to the bridge.\<close>

theorem FindText_forwarded_to_bridge:
  "''FindText'' \<notin> set toolRegistry_keys
   \<and> lo_fetches (on_line default_stdio (loopback idle_atom 0 bridge_3000)
        (Parsed (call_request (JNum 1) ''FindText'' (JObj []))))
     = [health_probe default_stdio, tool_post default_stdio ''FindText'' (JObj [])]"
proof -
  have "getToolByName (Some (JStr ''FindText''))
        = Some \<lparr>tool_name = ''FindText'',
                tool_properties = [(''pattern'', ''string''), (''isRegex'', ''boolean''),
                                   (''caseSensitive'', ''boolean'')],
                tool_required = [''pattern'']\<rparr>"
    by (simp add: getToolByName_def tools_def)
  then show ?thesis
    using loopback_health [OF bridge_3000_listening, of idle_atom 0]
    by (simp add: on_line_call handleRequest_call toolRegistry_keys_def callBridge_def
        fetching_def split: sum.splits payload.splits)
qed

section \<open>The line handler\<close>

lemma run_append:
  "run cfg s (evs @ evs')
   = (fst (run cfg (fst (run cfg s evs)) evs'),
      snd (run cfg s evs) @ snd (run cfg (fst (run cfg s evs)) evs'))"
  by (induction evs arbitrary: s) simp_all

lemma step_list_request:
  "\<not> pr_exited s \<Longrightarrow>
   step cfg s (Line fetch (Parsed (list_request i)))
   = (s\<lparr>pr_pending := pr_pending s @ [Response i (ToolsListResult tools)]\<rparr>, [])"
  by (simp add: step_def on_line_list)

text \<open>
  C7. A line that is not valid JSON makes the handler write exactly one message, the
  error -32700 with id \<open>null\<close>; it calls nothing and lets no exception escape. In the
  process the message is written when the line arrives and the state is left as it
  was: no rejection is recorded and the suspended handlers are untouched, so whatever
  arrives or completes afterwards is handled as it would have been without that line.
\<close>

theorem parse_error_reply:
  "on_line cfg fetch Unparsable
     = \<lparr>lo_unhandled = None,
        lo_written = [ErrorResponse JNull (- 32700) ''Parse error''],
        lo_fetches = []\<rparr>
   \<and> (\<not> pr_exited s \<longrightarrow>
        step cfg s (Line fetch Unparsable)
          = (s, [ErrorResponse JNull (- 32700) ''Parse error''])
        \<and> run cfg s (Line fetch Unparsable # later)
          = (fst (run cfg s later),
             ErrorResponse JNull (- 32700) ''Parse error'' # snd (run cfg s later)))"
proof -
  have one: "on_line cfg fetch Unparsable
     = \<lparr>lo_unhandled = None,
        lo_written = [ErrorResponse JNull (- 32700) ''Parse error''],
        lo_fetches = []\<rparr>"
    by (simp add: on_line_def)
  have now: "step cfg s (Line fetch Unparsable)
          = (s, [ErrorResponse JNull (- 32700) ''Parse error''])" if "\<not> pr_exited s"
    using that by (simp add: step_def one)
  from one now show ?thesis by simp
qed

text \<open>C7, witness: a \<open>tools/list\<close> request, a malformed line and another request arrive
  together, and the two suspended handlers complete afterwards. The parse error is
  written first; both requests are answered.\<close>

theorem parse_error_reply_witness:
  "\<not> pr_exited (start\<lparr>pr_pending := [Response (JNum 1) (ToolsListResult tools)]\<rparr>)
   \<and> run default_stdio start
       [Line refused (Parsed (list_request (JNum 1))), Line refused Unparsable,
        Line refused (Parsed (list_request (JNum 2))), Done 0, Done 0]
     = (start,
        [ErrorResponse JNull (- 32700) ''Parse error'',
         Response (JNum 1) (ToolsListResult tools),
         Response (JNum 2) (ToolsListResult tools)])"
proof -
  let ?s = "start\<lparr>pr_pending := [Response (JNum 1) (ToolsListResult tools)]\<rparr>"
  let ?later = "[Line refused (Parsed (list_request (JNum 2))), Done 0, Done 0]"
  have h: "\<not> pr_exited ?s" by (simp add: start_def)
  have first: "step default_stdio start (Line refused (Parsed (list_request (JNum 1)))) = (?s, [])"
    by (simp add: step_list_request start_def)
  have rest: "run default_stdio ?s ?later
              = (start, [Response (JNum 1) (ToolsListResult tools),
                         Response (JNum 2) (ToolsListResult tools)])"
    by (simp add: step_list_request start_def) (simp add: step_def)
  from h parse_error_reply [of default_stdio refused ?s ?later]
  have "run default_stdio ?s (Line refused Unparsable # ?later)
        = (fst (run default_stdio ?s ?later),
           ErrorResponse JNull (- 32700) ''Parse error'' # snd (run default_stdio ?s ?later))"
    by blast
  with h first rest show ?thesis by simp
qed

text \<open>
  C8. A line that parses to a message without an \<open>id\<close> field makes the handler write
  nothing, whatever its method and parameters: no call is made, no exception escapes,
  the state of the process is unchanged, and a run goes on as if the line had not
  arrived.
\<close>

theorem notification_silent:
  assumes "req \<noteq> JNull" and "field req ''id'' = None"
  shows "on_line cfg fetch (Parsed req)
           = \<lparr>lo_unhandled = None, lo_written = [], lo_fetches = []\<rparr>
       \<and> step cfg s (Line fetch (Parsed req)) = (s, [])
       \<and> run cfg s (Line fetch (Parsed req) # rest) = run cfg s rest"
proof -
  have one: "on_line cfg fetch (Parsed req)
           = \<lparr>lo_unhandled = None, lo_written = [], lo_fetches = []\<rparr>"
    using assms by (simp add: on_line_def)
  have "step cfg s (Line fetch (Parsed req)) = (s, [])"
    by (simp add: step_def one)
  with one show ?thesis by simp
qed

text \<open>C8, witness: a \<open>tools/call\<close> without \<open>id\<close> while the bridge is down, followed by a
  request and its completion.\<close>

theorem notification_silent_witness:
  "notification \<noteq> JNull \<and> field notification ''id'' = None
   \<and> on_line default_stdio refused (Parsed notification)
       = \<lparr>lo_unhandled = None, lo_written = [], lo_fetches = []\<rparr>
   \<and> run default_stdio start
       [Line refused (Parsed notification), Line refused (Parsed (list_request (JNum 7))), Done 0]
       = (start, [Response (JNum 7) (ToolsListResult tools)])"
proof -
  have a: "notification \<noteq> JNull" and b: "field notification ''id'' = None"
    by (simp_all add: notification_def)
  have rest: "run default_stdio start [Line refused (Parsed (list_request (JNum 7))), Done 0]
              = (start, [Response (JNum 7) (ToolsListResult tools)])"
    by (simp add: step_list_request start_def) (simp add: step_def)
  show ?thesis
    using a b rest notification_silent [OF a b, of default_stdio refused start
        "[Line refused (Parsed (list_request (JNum 7))), Done 0]"]
    by simp
qed

section \<open>The health probe\<close>










section \<open>Stopping twice\<close>

text \<open>
  C10, as the code has it. On a bridge whose server is listening, the first \<open>stop\<close>
  resolves and leaves the server closed. A second \<open>stop\<close> leaves the bridge in that same
  state, but its promise is rejected with the error \<open>close\<close> reports for a server that
  is not running; \<open>stopBridge\<close> behaves the same way.
\<close>

theorem stop_twice:
  assumes "br_server b = Listening h p"
  shows "stop b = (Resolved, b\<lparr>br_server := Closed\<rparr>)
       \<and> stop (snd (stop b)) = (Rejected ''Server is not running.'', b\<lparr>br_server := Closed\<rparr>)
       \<and> fst (stopBridge b) = (Resolved, b\<lparr>br_server := Closed\<rparr>)
       \<and> fst (stopBridge (snd (fst (stopBridge b))))
           = (Rejected ''Server is not running.'', b\<lparr>br_server := Closed\<rparr>)"
  using assms by (simp add: stop_def stopBridge_def server_close_def)

text \<open>C10, witness: the bridge started with the default configuration on a free port.\<close>

theorem stop_twice_witness:
  "br_server bridge_3000 = Listening ''127.0.0.1'' 3000
   \<and> stop bridge_3000 = (Resolved, bridge_3000\<lparr>br_server := Closed\<rparr>)
   \<and> stop (snd (stop bridge_3000))
       = (Rejected ''Server is not running.'', bridge_3000\<lparr>br_server := Closed\<rparr>)"
proof -
  have h: "br_server bridge_3000 = Listening ''127.0.0.1'' 3000"
    using bridge_3000_listening by (simp add: default_stdio_def)
  show ?thesis using h stop_twice [OF h] by blast
qed

text \<open>C10, counterexample: the second \<open>stop\<close> of a started bridge is rejected.\<close>

theorem second_stop_rejected:
  "fst (stop (snd (stop bridge_3000))) = Rejected ''Server is not running.''"
  by (simp add: stop_def server_close_def bridge_3000_def startBridge_def free_network_def
      default_config_def DEFAULT_PORT_def DEFAULT_HOST_def server_listen_def Let_def)

end
